theory Spec2Isabelle
  imports Main
begin

section \<open>The scheduler bots (bot.py, bot1.py) as HOL functions\<close>

text \<open>
  The two front ends are embedded function by function. Everything a handler does beyond
  returning is explicit: the SQLite table \<open>schedules\<close>, the job queue of the
  application, the calls to the Bot API and the log are fields of a state record that
  every function takes and returns; a Python exception is a value of type \<open>exn\<close>.

  Conventions.
  \<^item> A Python \<open>str\<close> is a \<open>string\<close>; a character stands for the code point of the
    same number (U+0000 to U+00FF). The texts the bots send contain characters beyond
    that range and are never inspected by the code, so they are constructors of \<open>msg_text\<close>.
  \<^item> A \<open>datetime\<close> is an \<open>int\<close>: microseconds since the epoch, in UTC. A
    \<open>timedelta\<close>, and the \<open>when\<close> of a job of bot.py (field \<open>when_us\<close>), is an \<open>int\<close> of microseconds.
  \<^item> \<open>datetime.now\<close>, \<open>uuid4\<close> and the outcome of a Bot API call are inputs: the
    functions take the clock reading, the generated identifier and an oracle \<open>net\<close>
    (\<open>net n\<close> tells whether the \<open>n\<close>-th call of the process succeeds).
  \<^item> Disk failures of SQLite and the Flask health-check thread are outside the model.
\<close>

subsection \<open>Python builtins\<close>

datatype exn = ValueError | IndexError | OverflowError | IntegrityError | TelegramError

text \<open>\<open>str.isdigit\<close>: non-empty, every character a digit. Below U+0100 the digits are
  \<open>0\<close> to \<open>9\<close> and the superscripts U+00B2, U+00B3, U+00B9.\<close>

definition ascii_digit :: "char \<Rightarrow> bool" where
  "ascii_digit c = (48 \<le> (of_char c :: nat) \<and> (of_char c :: nat) \<le> 57)"

definition isdigit_char :: "char \<Rightarrow> bool" where
  "isdigit_char c = (ascii_digit c \<or> c = CHR 0xB2 \<or> c = CHR 0xB3 \<or> c = CHR 0xB9)"

definition isdigit :: "string \<Rightarrow> bool" where
  "isdigit s = (s \<noteq> [] \<and> list_all isdigit_char s)"

text \<open>\<open>int(s)\<close> in base 10: white space is stripped at both ends, then an optional sign,
  then decimal digits in which single underscores may stand between two digits. More
  than \<open>int_max_str_digits\<close> digits are refused (the default limit of CPython). Every
  failure is a \<open>ValueError\<close>.\<close>

definition int_space :: "char \<Rightarrow> bool" where
  "int_space c = (c \<in> set [CHR 0x09, CHR 0x0A, CHR 0x0B, CHR 0x0C, CHR 0x0D, CHR 0x20,
                             CHR 0x85, CHR 0xA0])"

definition strip :: "string \<Rightarrow> string" where
  "strip s = rev (dropWhile int_space (rev (dropWhile int_space s)))"

definition digit_val :: "char \<Rightarrow> int" where
  "digit_val c = of_char c - 48"

text \<open>The digits of a literal, underscores removed; \<open>None\<close> when an underscore is
  leading, trailing or doubled, when another character occurs, or when there is no digit.\<close>

fun digits_us :: "string \<Rightarrow> string option" where
  "digits_us [] = None"
| "digits_us [c] = (if ascii_digit c then Some [c] else None)"
| "digits_us (c # d # s) =
     (if ascii_digit c then
        (if d = CHR ''_'' then map_option ((#) c) (digits_us s)
         else map_option ((#) c) (digits_us (d # s)))
      else None)"

definition int_max_str_digits :: nat where
  "int_max_str_digits = 4300"

definition decimal :: "string \<Rightarrow> int" where
  "decimal ds = foldl (\<lambda>n c. 10 * n + digit_val c) 0 ds"

definition py_int :: "string \<Rightarrow> exn + int" where
  "py_int s =
     (let t = strip s;
          neg = (t \<noteq> [] \<and> hd t = CHR ''-'');
          body = (if t \<noteq> [] \<and> (hd t = CHR ''-'' \<or> hd t = CHR ''+'') then tl t else t)
      in case digits_us body of
           None \<Rightarrow> Inl ValueError
         | Some ds \<Rightarrow>
             if length ds > int_max_str_digits then Inl ValueError
             else Inr (if neg then - decimal ds else decimal ds))"

text \<open>\<open>str(n)\<close> of an integer, and \<open>sep.join(xs)\<close>.\<close>

fun digits_of :: "nat \<Rightarrow> string" where
  "digits_of n =
     (if n < 10 then [char_of (48 + n)]
      else digits_of (n div 10) @ [char_of (48 + n mod 10)])"

declare digits_of.simps [simp del]

definition py_str :: "int \<Rightarrow> string" where
  "py_str i = (if i < 0 then CHR ''-'' # digits_of (nat (- i)) else digits_of (nat i))"

fun join :: "string \<Rightarrow> string list \<Rightarrow> string" where
  "join sep [] = []"
| "join sep [x] = x"
| "join sep (x # y # ys) = x @ sep @ join sep (y # ys)"

text \<open>\<open>timedelta(seconds=n)\<close> raises \<open>OverflowError\<close> when the normalised number of
  days exceeds 999999999 in magnitude; \<open>datetime + timedelta\<close> raises it when the sum
  leaves the years 1 to 9999.\<close>

definition timedelta_seconds :: "int \<Rightarrow> exn + int" where
  "timedelta_seconds n =
     (if \<bar>n div 86400\<bar> > 999999999 then Inl OverflowError else Inr (n * 1000000))"

definition datetime_min :: int where
  "datetime_min = - 62135596800000000"

definition datetime_max :: int where
  "datetime_max = 253402300799999999"

definition datetime_add :: "int \<Rightarrow> int \<Rightarrow> exn + int" where
  "datetime_add t d =
     (if t + d < datetime_min \<or> datetime_max < t + d then Inl OverflowError
      else Inr (t + d))"

subsection \<open>State: the table, the job queue, the Bot API\<close>

text \<open>A row of the table \<open>schedules\<close> (the columns of \<open>init_db\<close>).\<close>

record schedule_row =
  job_id :: string
  chat_id :: int
  command_to_send :: string
  details_command_to_send :: string
  run_at :: int

text \<open>The \<open>data\<close> dictionary that bot.py gives to \<open>run_once\<close>, and the job the queue keeps.
  bot.py never passes \<open>chat_id=\<close> to \<open>run_once\<close>, so the attribute \<open>job.chat_id\<close>
  that \<open>alarm\<close> reads is \<open>None\<close>; the chat id travels in \<open>data\<close>.\<close>

record job_data =
  data_chat_id :: int
  command :: string
  details_command :: string
  data_job_id :: string

record job =
  when_us :: int
  data :: job_data
  name :: string
  job_chat_id :: "int option"

text \<open>The texts of bot.py.\<close>

datatype msg_text =
    Banner
  | Plain string
  | Understood int
  | InvalidFormat

datatype level = INFO | WARNING | ERROR | CRITICAL

text \<open>What the process does, in order.\<close>

datatype event =
    Armed job
  | Inserted schedule_row
  | Deleted string
  | Sent "int option" msg_text
  | SendFailed "int option" msg_text
  | Logged level

record world =
  db :: "schedule_row list"
  job_queue :: "job list"
  api_calls :: nat
  trace :: "event list"

definition log :: "level \<Rightarrow> world \<Rightarrow> world" where
  "log l w = w\<lparr>trace := trace w @ [Logged l]\<rparr>"

subsection \<open>Database functions of bot.py\<close>

text \<open>\<open>init_db\<close>: \<open>CREATE TABLE IF NOT EXISTS\<close> keeps an existing table and its rows.\<close>

definition init_db :: "world \<Rightarrow> world" where
  "init_db w = log INFO w"

text \<open>\<open>add_schedule_to_db\<close>: \<open>job_id\<close> is the primary key, so the \<open>INSERT\<close> of a key
  that is present raises \<open>IntegrityError\<close>; the transaction is rolled back and the log
  line is not reached.\<close>

definition add_schedule_to_db ::
  "string \<Rightarrow> int \<Rightarrow> string \<Rightarrow> string \<Rightarrow> int \<Rightarrow> world \<Rightarrow> (exn + unit) \<times> world" where
  "add_schedule_to_db jid cid cmd details_cmd at w =
     (let r = \<lparr>job_id = jid, chat_id = cid, command_to_send = cmd,
                details_command_to_send = details_cmd, run_at = at\<rparr>
      in if jid \<in> set (map job_id (db w)) then (Inl IntegrityError, w)
         else (Inr (), log INFO (w\<lparr>db := db w @ [r], trace := trace w @ [Inserted r]\<rparr>)))"

text \<open>\<open>remove_schedule_from_db\<close>: \<open>DELETE ... WHERE job_id = ?\<close>.\<close>

definition remove_schedule_from_db :: "string \<Rightarrow> world \<Rightarrow> world" where
  "remove_schedule_from_db jid w =
     log INFO (w\<lparr>db := filter (\<lambda>r. job_id r \<noteq> jid) (db w), trace := trace w @ [Deleted jid]\<rparr>)"

text \<open>\<open>get_pending_schedules\<close>: \<open>SELECT * ... WHERE run_at > ?\<close> with the clock reading
  \<open>now\<close> as parameter. Both sides are stored as ISO texts of UTC instants, whose order as
  texts is the order of the instants.\<close>

definition get_pending_schedules :: "int \<Rightarrow> world \<Rightarrow> schedule_row list" where
  "get_pending_schedules now w = filter (\<lambda>r. now < run_at r) (db w)"

subsection \<open>Job queue and Bot API (external)\<close>

text \<open>\<open>job_queue.run_once(alarm, when=..., data=..., name=...)\<close>: the queue is the
  external timer engine; it is taken to accept every delay and to keep the job.\<close>

definition run_once :: "int \<Rightarrow> job_data \<Rightarrow> string \<Rightarrow> world \<Rightarrow> world" where
  "run_once wh d n w =
     (let j = \<lparr>when_us = wh, data = d, name = n, job_chat_id = None\<rparr>
      in w\<lparr>job_queue := job_queue w @ [j], trace := trace w @ [Armed j]\<rparr>)"

text \<open>\<open>bot.send_message(chat, text)\<close>; a failed call raises \<open>TelegramError\<close>.
  \<open>message.reply_text\<close> is \<open>send_message\<close> to the chat of the message.\<close>

definition send_message ::
  "(nat \<Rightarrow> bool) \<Rightarrow> int option \<Rightarrow> msg_text \<Rightarrow> world \<Rightarrow> (exn + unit) \<times> world" where
  "send_message net c t w =
     (if net (api_calls w)
      then (Inr (), w\<lparr>api_calls := Suc (api_calls w), trace := trace w @ [Sent c t]\<rparr>)
      else (Inl TelegramError,
            w\<lparr>api_calls := Suc (api_calls w), trace := trace w @ [SendFailed c t]\<rparr>))"

subsection \<open>Bot functions of bot.py\<close>

text \<open>\<open>alarm\<close>: three messages, then the clean-up of the database. An exception of a
  \<open>send_message\<close> leaves the function at once.\<close>

definition alarm :: "(nat \<Rightarrow> bool) \<Rightarrow> job \<Rightarrow> world \<Rightarrow> (exn + unit) \<times> world" where
  "alarm net j w =
     (case send_message net (job_chat_id j) Banner w of
        (Inl e, w1) \<Rightarrow> (Inl e, w1)
      | (Inr _, w1) \<Rightarrow>
     (case send_message net (job_chat_id j) (Plain (command (data j))) w1 of
        (Inl e, w2) \<Rightarrow> (Inl e, w2)
      | (Inr _, w2) \<Rightarrow>
     (case send_message net (job_chat_id j) (Plain (details_command (data j))) w2 of
        (Inl e, w3) \<Rightarrow> (Inl e, w3)
      | (Inr _, w3) \<Rightarrow>
          (Inr (), log INFO (remove_schedule_from_db (data_job_id (data j)) w3)))))"

text \<open>The environment of the process and an incoming command.\<close>

record env =
  BOT_TOKEN :: "string option"
  ADMIN_USERID :: "string option"

record update =
  effective_user_id :: int
  message_chat_id :: int
  args :: "string list"

text \<open>The body of the \<open>try\<close> of \<open>schedule\<close>; \<open>now\<close> is the clock reading of line 155 and
  \<open>uuid\<close> the text of \<open>uuid4()\<close>.\<close>

definition schedule_try ::
  "(nat \<Rightarrow> bool) \<Rightarrow> int \<Rightarrow> string \<Rightarrow> update \<Rightarrow> world \<Rightarrow> (exn + unit) \<times> world" where
  "schedule_try net now uuid u w =
     (case args u of
        [a0, a1, a2] \<Rightarrow>
          (case py_int a0 of
             Inl e \<Rightarrow> (Inl e, w)
           | Inr delay_seconds \<Rightarrow>
               (let command_name = a1; target_user_id = a2 in
                if command_name \<noteq> ''/freecredential'' \<or> \<not> isdigit target_user_id
                then (Inl ValueError, w)
                else
                  (let cmd = ''/freecredential '' @ target_user_id;
                       details_cmd = ''/seedetails '' @ target_user_id;
                       jid = uuid;
                       w1 = run_once (delay_seconds * 1000000)
                              \<lparr>data_chat_id = effective_user_id u, command = cmd,
                               details_command = details_cmd, data_job_id = jid\<rparr> jid w
                   in case timedelta_seconds delay_seconds of
                        Inl e \<Rightarrow> (Inl e, w1)
                      | Inr d \<Rightarrow>
                    (case datetime_add now d of
                        Inl e \<Rightarrow> (Inl e, w1)
                      | Inr run_at_time \<Rightarrow>
                    (case add_schedule_to_db jid (effective_user_id u) cmd details_cmd
                            run_at_time w1 of
                        (Inl e, w2) \<Rightarrow> (Inl e, w2)
                      | (Inr _, w2) \<Rightarrow>
                          send_message net (Some (message_chat_id u))
                            (Understood delay_seconds) w2)))))
      | _ \<Rightarrow> (Inl ValueError, w))"

text \<open>\<open>schedule\<close>: the security check, the \<open>try\<close>, and the handler of \<open>IndexError\<close> and
  \<open>ValueError\<close>. The result is the exception that leaves the handler, if any.\<close>

definition schedule ::
  "env \<Rightarrow> (nat \<Rightarrow> bool) \<Rightarrow> int \<Rightarrow> string \<Rightarrow> update \<Rightarrow> world \<Rightarrow> exn option \<times> world" where
  "schedule ev net now uuid u w =
     (if Some (py_str (effective_user_id u)) \<noteq> ADMIN_USERID ev
      then (None, log WARNING w)
      else
        (case schedule_try net now uuid u w of
           (Inr _, w1) \<Rightarrow> (None, w1)
         | (Inl e, w1) \<Rightarrow>
             if e = IndexError \<or> e = ValueError
             then (case send_message net (Some (message_chat_id u)) InvalidFormat
                          (log ERROR w1) of
                     (Inl e', w2) \<Rightarrow> (Some e', w2)
                   | (Inr _, w2) \<Rightarrow> (None, w2))
             else (Some e, w1)))"

text \<open>The loop of \<open>main\<close> over the rows that \<open>get_pending_schedules\<close> returned; \<open>now\<close>
  is the clock reading of line 188.\<close>

primrec restore :: "int \<Rightarrow> schedule_row list \<Rightarrow> nat \<Rightarrow> world \<Rightarrow> nat \<times> world" where
  "restore now [] restored_count w = (restored_count, w)"
| "restore now (job_row # rest) restored_count w =
     (let jid = job_id job_row;
          delay = run_at job_row - now;
          delay = (if delay < 0 then 0 else delay);
          w1 = run_once delay
                 \<lparr>data_chat_id = chat_id job_row, command = command_to_send job_row,
                  details_command = details_command_to_send job_row, data_job_id = jid\<rparr>
                 jid w
      in restore now rest (Suc restored_count) w1)"

text \<open>\<open>not v\<close> for a value of \<open>os.getenv\<close>: unset or empty.\<close>

definition falsy :: "string option \<Rightarrow> bool" where
  "falsy v = (v = None \<or> v = Some [])"

text \<open>\<open>main\<close> up to \<open>run_polling\<close>: \<open>now_query\<close> is the clock reading inside
  \<open>get_pending_schedules\<close>, \<open>now\<close> the later one of line 188. The application that
  \<open>build()\<close> returns has an empty job queue.\<close>

definition main :: "env \<Rightarrow> int \<Rightarrow> int \<Rightarrow> world \<Rightarrow> world" where
  "main ev now_query now w =
     (if falsy (BOT_TOKEN ev) \<or> falsy (ADMIN_USERID ev) then log CRITICAL w
      else
        (let w1 = init_db w;
             w2 = w1\<lparr>job_queue := []\<rparr>;
             pending_jobs = get_pending_schedules now_query w2;
             (restored_count, w3) = restore now pending_jobs 0 w2;
             w4 = (if restored_count > 0 then log INFO w3 else w3)
         in log INFO w4))"



subsection \<open>bot1.py\<close>

text \<open>The reminder bot keeps no table. Its jobs carry the reminder text as \<open>data\<close>, the
  delay in seconds and the chat id; its log is not modelled.\<close>

datatype reply1 = Usage | TooSmall | GotIt int

record reminder =
  rem_when :: int
  rem_data :: string
  rem_chat_id :: int

record world1 =
  reminders :: "reminder list"
  api_calls1 :: nat
  sent1 :: "(int \<times> reply1) list"

definition reply_text1 ::
  "(nat \<Rightarrow> bool) \<Rightarrow> int \<Rightarrow> reply1 \<Rightarrow> world1 \<Rightarrow> (exn + unit) \<times> world1" where
  "reply_text1 net c t w =
     (if net (api_calls1 w)
      then (Inr (), w\<lparr>api_calls1 := Suc (api_calls1 w), sent1 := sent1 w @ [(c, t)]\<rparr>)
      else (Inl TelegramError, w\<lparr>api_calls1 := Suc (api_calls1 w)\<rparr>))"

definition set_reminder_try ::
  "(nat \<Rightarrow> bool) \<Rightarrow> update \<Rightarrow> world1 \<Rightarrow> (exn + unit) \<times> world1" where
  "set_reminder_try net u w =
     (let chat = message_chat_id u in
      if length (args u) < 2 then reply_text1 net chat Usage w
      else
        (case args u of
           [] \<Rightarrow> (Inl IndexError, w)
         | a0 # rest \<Rightarrow>
             (case py_int a0 of
                Inl e \<Rightarrow> (Inl e, w)
              | Inr delay \<Rightarrow>
                  if delay < 1 then reply_text1 net chat TooSmall w
                  else
                    (let reminder_text = join '' '' rest;
                         w1 = w\<lparr>reminders := reminders w @
                                [\<lparr>rem_when = delay, rem_data = reminder_text,
                                  rem_chat_id = chat\<rparr>]\<rparr>
                     in case timedelta_seconds delay of
                          Inl e \<Rightarrow> (Inl e, w1)
                        | Inr _ \<Rightarrow> reply_text1 net chat (GotIt delay) w1))))"

definition set_reminder ::
  "(nat \<Rightarrow> bool) \<Rightarrow> update \<Rightarrow> world1 \<Rightarrow> exn option \<times> world1" where
  "set_reminder net u w =
     (case set_reminder_try net u w of
        (Inr _, w1) \<Rightarrow> (None, w1)
      | (Inl e, w1) \<Rightarrow>
          if e = IndexError \<or> e = ValueError
          then (case reply_text1 net (message_chat_id u) Usage w1 of
                  (Inl e', w2) \<Rightarrow> (Some e', w2)
                | (Inr _, w2) \<Rightarrow> (None, w2))
          else (Some e, w1))"

subsection \<open>Properties of traces, and the running examples\<close>

text \<open>The order that the specification asks of a submission: every timer is armed for a
  job whose row was inserted before (\<open>seen\<close> holds the ids inserted so far).\<close>

fun persisted_before_armed :: "string list \<Rightarrow> event list \<Rightarrow> bool" where
  "persisted_before_armed seen [] = True"
| "persisted_before_armed seen (Inserted r # es) = persisted_before_armed (job_id r # seen) es"
| "persisted_before_armed seen (Armed j # es) =
     (name j \<in> set seen \<and> persisted_before_armed seen es)"
| "persisted_before_armed seen (e # es) = persisted_before_armed seen es"

text \<open>A request that the checks of \<open>schedule\<close> refuse: the requester is not the admin, or
  the arguments are not three, the delay is no integer literal, the command is not
  \<open>/freecredential\<close>, or the target is not made of digits.\<close>

definition unauthorized :: "env \<Rightarrow> update \<Rightarrow> bool" where
  "unauthorized ev u = (Some (py_str (effective_user_id u)) \<noteq> ADMIN_USERID ev)"

definition malformed :: "update \<Rightarrow> bool" where
  "malformed u =
     (case args u of
        [a0, a1, a2] \<Rightarrow> isl (py_int a0) \<or> a1 \<noteq> ''/freecredential'' \<or> \<not> isdigit a2
      | _ \<Rightarrow> True)"

definition admin_env :: env where
  "admin_env = \<lparr>BOT_TOKEN = Some ''token'', ADMIN_USERID = Some ''42''\<rparr>"

definition empty_world :: world where
  "empty_world = \<lparr>db = [], job_queue = [], api_calls = 0, trace = []\<rparr>"

definition online :: "nat \<Rightarrow> bool" where
  "online n = True"

definition offline_at :: "nat \<Rightarrow> nat \<Rightarrow> bool" where
  "offline_at k n = (n \<noteq> k)"

definition request :: "int \<Rightarrow> string list \<Rightarrow> update" where
  "request uid xs = \<lparr>effective_user_id = uid, message_chat_id = uid, args = xs\<rparr>"

definition overdue_row :: schedule_row where
  "overdue_row =
     \<lparr>job_id = ''job-1'', chat_id = 42, command_to_send = ''/freecredential 123'',
      details_command_to_send = ''/seedetails 123'', run_at = 5000000\<rparr>"

definition future_row :: schedule_row where
  "future_row =
     \<lparr>job_id = ''job-2'', chat_id = 42, command_to_send = ''/freecredential 7'',
      details_command_to_send = ''/seedetails 7'', run_at = 10000000000\<rparr>"

definition stored_world :: world where
  "stored_world = \<lparr>db = [overdue_row, future_row], job_queue = [], api_calls = 0, trace = []\<rparr>"

definition job1 :: job where
  "job1 =
     \<lparr>when_us = 0,
      data = \<lparr>data_chat_id = 42, command = ''/freecredential 123'',
              details_command = ''/seedetails 123'', data_job_id = ''job-1''\<rparr>,
      name = ''job-1'', job_chat_id = None\<rparr>"

text \<open>The timer that the specification asks of recovery for a stored row: the remaining
  time to \<open>run_at\<close>, never below zero.\<close>

definition rearmed :: "int \<Rightarrow> schedule_row \<Rightarrow> job" where
  "rearmed now r =
     \<lparr>when_us = max 0 (run_at r - now),
      data = \<lparr>data_chat_id = chat_id r, command = command_to_send r,
              details_command = details_command_to_send r, data_job_id = job_id r\<rparr>,
      name = job_id r, job_chat_id = None\<rparr>"

text \<open>The timer and the row of an accepted request with delay \<open>d\<close> and target \<open>t\<close>.\<close>

definition submitted_job :: "string \<Rightarrow> update \<Rightarrow> int \<Rightarrow> string \<Rightarrow> job" where
  "submitted_job uuid u d t =
     \<lparr>when_us = d * 1000000,
      data = \<lparr>data_chat_id = effective_user_id u, command = ''/freecredential '' @ t,
              details_command = ''/seedetails '' @ t, data_job_id = uuid\<rparr>,
      name = uuid, job_chat_id = None\<rparr>"

definition submitted_row :: "string \<Rightarrow> update \<Rightarrow> string \<Rightarrow> int \<Rightarrow> schedule_row" where
  "submitted_row uuid u t at =
     \<lparr>job_id = uuid, chat_id = effective_user_id u,
      command_to_send = ''/freecredential '' @ t,
      details_command_to_send = ''/seedetails '' @ t, run_at = at\<rparr>"

text \<open>Requests of the running examples: the admin has user id 42.\<close>

definition submit_request :: update where
  "submit_request = request 42 [''5'', ''/freecredential'', ''123'']"

definition negative_request :: update where
  "negative_request = request 42 [''-5'', ''/freecredential'', ''123'']"




definition empty_world1 :: world1 where
  "empty_world1 = \<lparr>reminders = [], api_calls1 = 0, sent1 = []\<rparr>"

section \<open>Basic facts\<close>

lemma db_log [simp]: "db (log l w) = db w"
  and job_queue_log [simp]: "job_queue (log l w) = job_queue w"
  and api_calls_log [simp]: "api_calls (log l w) = api_calls w"
  and trace_log [simp]: "trace (log l w) = trace w @ [Logged l]"
  by (simp_all add: log_def)

lemma send_message_ok:
  "net (api_calls w) \<Longrightarrow> send_message net c t w =
     (Inr (), w\<lparr>api_calls := Suc (api_calls w), trace := trace w @ [Sent c t]\<rparr>)"
  by (simp add: send_message_def)

lemma send_message_fail:
  "\<not> net (api_calls w) \<Longrightarrow> send_message net c t w =
     (Inl TelegramError,
      w\<lparr>api_calls := Suc (api_calls w), trace := trace w @ [SendFailed c t]\<rparr>)"
  by (simp add: send_message_def)

text \<open>The loop of \<open>main\<close> arms one timer per row it is given, in order, and counts them.\<close>

lemma restore_spec:
  "restore now rows n w =
     (n + length rows,
      w\<lparr>job_queue := job_queue w @ map (rearmed now) rows,
        trace := trace w @ map (\<lambda>r. Armed (rearmed now r)) rows\<rparr>)"
proof (induction rows arbitrary: n w)
  case Nil
  show ?case by simp
next
  case (Cons r rows)
  have m: "(if run_at r - now < 0 then 0 else run_at r - now) = max 0 (run_at r - now)"
    by (simp add: max_def)
  show ?case
    by (simp add: Cons.IH Let_def run_once_def rearmed_def m)
qed

section \<open>The Durable Store\<close>

text \<open>
  Claim C2. The list-pending accessor, queried at time \<open>asOf\<close>, returns exactly the stored
  rows whose \<open>run_at\<close> is strictly greater than \<open>asOf\<close>: a row whose \<open>run_at\<close> is equal to
  or earlier than \<open>asOf\<close> is not in the result.
\<close>

theorem get_pending_schedules_strictly_later:
  "set (get_pending_schedules asOf w) = {r. r \<in> set (db w) \<and> asOf < run_at r}"
  by (auto simp: get_pending_schedules_def)

text \<open>
  Claim C7. Deleting from the store is idempotent: \<open>remove_schedule_from_db\<close> has no
  error result; for an id with no row it leaves the table as it is, and deleting twice
  leaves the table that deleting once leaves.
\<close>

theorem remove_schedule_idempotent:
  "db (remove_schedule_from_db jid (remove_schedule_from_db jid w))
     = db (remove_schedule_from_db jid w)
   \<and> (jid \<notin> set (map job_id (db w)) \<longrightarrow> db (remove_schedule_from_db jid w) = db w)"
proof
  show "db (remove_schedule_from_db jid (remove_schedule_from_db jid w))
     = db (remove_schedule_from_db jid w)"
    by (simp add: remove_schedule_from_db_def)
next
  show "jid \<notin> set (map job_id (db w)) \<longrightarrow> db (remove_schedule_from_db jid w) = db w"
  proof
    assume "jid \<notin> set (map job_id (db w))"
    then have "\<forall>r \<in> set (db w). job_id r \<noteq> jid" by auto
    then have "filter (\<lambda>r. job_id r \<noteq> jid) (db w) = db w" by (simp add: filter_id_conv)
    then show "db (remove_schedule_from_db jid w) = db w"
      by (simp add: remove_schedule_from_db_def)
  qed
qed

theorem remove_schedule_idempotent_witness:
  "''job-9'' \<notin> set (map job_id (db stored_world))
   \<and> db (remove_schedule_from_db ''job-9'' stored_world) = db stored_world
   \<and> db (remove_schedule_from_db ''job-1'' (remove_schedule_from_db ''job-1'' stored_world))
       = [future_row]"
  using remove_schedule_idempotent [of "''job-9''" stored_world]
    remove_schedule_idempotent [of "''job-1''" stored_world]
  by (simp add: stored_world_def overdue_row_def future_row_def remove_schedule_from_db_def)

section \<open>Recovery\<close>



section \<open>The fire callback\<close>

text \<open>
  Claim C6. The fire callback \<open>alarm\<close> deletes the row of the job only after its calls of
  the Dispatch Sink have succeeded: when the three \<open>send_message\<close> calls succeed, the
  deletion follows them; when one of them fails, \<open>alarm\<close> ends with that error, the
  deletion is not reached and the table is unchanged, so the row stays in the store.
\<close>

theorem alarm_delete_after_dispatch:
  "(net (api_calls w) \<and> net (Suc (api_calls w)) \<and> net (Suc (Suc (api_calls w))) \<longrightarrow>
      fst (alarm net j w) = Inr ()
      \<and> db (snd (alarm net j w)) = filter (\<lambda>r. job_id r \<noteq> data_job_id (data j)) (db w)
      \<and> trace (snd (alarm net j w)) =
          trace w @ [Sent (job_chat_id j) Banner,
                     Sent (job_chat_id j) (Plain (command (data j))),
                     Sent (job_chat_id j) (Plain (details_command (data j))),
                     Deleted (data_job_id (data j)), Logged INFO, Logged INFO])
   \<and> (\<not> (net (api_calls w) \<and> net (Suc (api_calls w)) \<and> net (Suc (Suc (api_calls w)))) \<longrightarrow>
      fst (alarm net j w) = Inl TelegramError
      \<and> db (snd (alarm net j w)) = db w
      \<and> (\<forall>i. Deleted i \<in> set (trace (snd (alarm net j w))) \<longrightarrow> Deleted i \<in> set (trace w)))"
proof (intro conjI impI)
  assume ok: "net (api_calls w) \<and> net (Suc (api_calls w)) \<and> net (Suc (Suc (api_calls w)))"
  then have a: "alarm net j w =
      (Inr (), log INFO (remove_schedule_from_db (data_job_id (data j))
         (w\<lparr>api_calls := Suc (Suc (Suc (api_calls w))),
            trace := trace w @ [Sent (job_chat_id j) Banner,
                     Sent (job_chat_id j) (Plain (command (data j))),
                     Sent (job_chat_id j) (Plain (details_command (data j)))]\<rparr>)))"
    by (simp add: alarm_def send_message_ok)
  show "fst (alarm net j w) = Inr ()" by (simp add: a)
  show "db (snd (alarm net j w)) = filter (\<lambda>r. job_id r \<noteq> data_job_id (data j)) (db w)"
    by (simp add: a remove_schedule_from_db_def)
  show "trace (snd (alarm net j w)) =
          trace w @ [Sent (job_chat_id j) Banner,
                     Sent (job_chat_id j) (Plain (command (data j))),
                     Sent (job_chat_id j) (Plain (details_command (data j))),
                     Deleted (data_job_id (data j)), Logged INFO, Logged INFO]"
    by (simp add: a remove_schedule_from_db_def)
next
  assume bad: "\<not> (net (api_calls w) \<and> net (Suc (api_calls w)) \<and> net (Suc (Suc (api_calls w))))"
  then consider (first) "\<not> net (api_calls w)"
    | (second) "net (api_calls w)" "\<not> net (Suc (api_calls w))"
    | (third) "net (api_calls w)" "net (Suc (api_calls w))" "\<not> net (Suc (Suc (api_calls w)))"
    by blast
  then have "fst (alarm net j w) = Inl TelegramError
      \<and> db (snd (alarm net j w)) = db w
      \<and> (\<forall>i. Deleted i \<in> set (trace (snd (alarm net j w))) \<longrightarrow> Deleted i \<in> set (trace w))"
  proof cases
    case first
    then show ?thesis by (simp add: alarm_def send_message_fail)
  next
    case second
    then show ?thesis by (simp add: alarm_def send_message_ok send_message_fail)
  next
    case third
    then show ?thesis by (simp add: alarm_def send_message_ok send_message_fail)
  qed
  then show "fst (alarm net j w) = Inl TelegramError"
    and "db (snd (alarm net j w)) = db w"
    and "\<forall>i. Deleted i \<in> set (trace (snd (alarm net j w))) \<longrightarrow> Deleted i \<in> set (trace w)"
    by blast+
qed

theorem alarm_delete_after_dispatch_witness:
  "db (snd (alarm online job1 stored_world)) = [future_row]
   \<and> fst (alarm online job1 stored_world) = Inr ()
   \<and> fst (alarm (offline_at 2) job1 stored_world) = Inl TelegramError
   \<and> db (snd (alarm (offline_at 2) job1 stored_world)) = [overdue_row, future_row]"
  using alarm_delete_after_dispatch [of online stored_world job1]
    alarm_delete_after_dispatch [of "offline_at 2" stored_world job1]
  by (simp add: online_def offline_at_def stored_world_def job1_def overdue_row_def
      future_row_def)

section \<open>The handler \<open>schedule\<close>\<close>

lemma py_int_error: "py_int s = Inl e \<Longrightarrow> e = ValueError"
  by (auto simp: py_int_def Let_def split: option.splits if_splits)

lemma schedule_try_malformed:
  "malformed u \<Longrightarrow> schedule_try net now uuid u w = (Inl ValueError, w)"
  by (auto simp: malformed_def schedule_try_def isl_def dest: py_int_error
      split: list.splits sum.splits)

lemma not_malformed:
  "\<not> malformed u \<Longrightarrow>
     \<exists>a0 t d. args u = [a0, ''/freecredential'', t] \<and> py_int a0 = Inr d \<and> isdigit t"
proof -
  assume nm: "\<not> malformed u"
  then obtain a0 a1 t where a: "args u = [a0, a1, t]"
    by (auto simp: malformed_def split: list.splits)
  with nm have b: "\<not> isl (py_int a0)" and c: "a1 = ''/freecredential''" and d: "isdigit t"
    by (simp_all add: malformed_def)
  from b obtain d' where "py_int a0 = Inr d'"
    by (cases "py_int a0") simp_all
  with a c d show ?thesis by blast
qed

text \<open>The \<open>try\<close> on a request that passes the checks: the timer first, then the two
  computations of \<open>run_at\<close>, the insertion and the confirmation.\<close>

lemma schedule_try_valid:
  assumes "args u = [a0, ''/freecredential'', t]" and "py_int a0 = Inr d" and "isdigit t"
  shows "schedule_try net now uuid u w =
     (let j = submitted_job uuid u d t;
          w1 = w\<lparr>job_queue := job_queue w @ [j], trace := trace w @ [Armed j]\<rparr>
      in case timedelta_seconds d of
           Inl e \<Rightarrow> (Inl e, w1)
         | Inr td \<Rightarrow>
        (case datetime_add now td of
           Inl e \<Rightarrow> (Inl e, w1)
         | Inr at \<Rightarrow>
             if uuid \<in> set (map job_id (db w)) then (Inl IntegrityError, w1)
             else send_message net (Some (message_chat_id u)) (Understood d)
                    (w\<lparr>db := db w @ [submitted_row uuid u t at],
                       job_queue := job_queue w @ [j],
                       trace := trace w @ [Armed j, Inserted (submitted_row uuid u t at),
                                           Logged INFO]\<rparr>)))"
  using assms
  by (cases w)
     (simp add: schedule_try_def Let_def run_once_def add_schedule_to_db_def
      submitted_job_def submitted_row_def log_def split: sum.splits)

lemma schedule_unauthorized:
  "unauthorized ev u \<Longrightarrow> schedule ev net now uuid u w = (None, log WARNING w)"
  by (simp add: schedule_def unauthorized_def)

lemma schedule_malformed:
  "\<not> unauthorized ev u \<Longrightarrow> malformed u \<Longrightarrow>
     schedule ev net now uuid u w =
       (if net (api_calls w)
        then (None, w\<lparr>api_calls := Suc (api_calls w),
                trace := trace w @ [Logged ERROR, Sent (Some (message_chat_id u)) InvalidFormat]\<rparr>)
        else (Some TelegramError, w\<lparr>api_calls := Suc (api_calls w),
                trace := trace w @ [Logged ERROR,
                                    SendFailed (Some (message_chat_id u)) InvalidFormat]\<rparr>))"
  by (cases w)
     (simp add: schedule_def unauthorized_def schedule_try_malformed send_message_def log_def)

lemma schedule_rejected_state:
  assumes "unauthorized ev u \<or> malformed u"
  shows "db (snd (schedule ev net now uuid u w)) = db w"
    and "job_queue (snd (schedule ev net now uuid u w)) = job_queue w"
proof -
  have "db (snd (schedule ev net now uuid u w)) = db w
      \<and> job_queue (snd (schedule ev net now uuid u w)) = job_queue w"
  proof (cases "unauthorized ev u")
    case True
    then show ?thesis by (simp add: schedule_unauthorized)
  next
    case False
    with assms have "malformed u" by simp
    with False show ?thesis by (simp add: schedule_malformed)
  qed
  then show "db (snd (schedule ev net now uuid u w)) = db w"
    and "job_queue (snd (schedule ev net now uuid u w)) = job_queue w"
    by simp_all
qed



text \<open>A request of the admin that passes the checks arms its timer whatever the sign of
  the delay: \<open>schedule\<close> has no lower bound on \<open>delay_seconds\<close>.\<close>

lemma schedule_arms_any_delay:
  assumes "\<not> unauthorized ev u"
    and "args u = [a0, ''/freecredential'', t]" and "py_int a0 = Inr d" and "isdigit t"
  shows "job_queue (snd (schedule ev net now uuid u w))
           = job_queue w @ [submitted_job uuid u d t]"
proof -
  from assms(1) have auth: "ADMIN_USERID ev = Some (py_str (effective_user_id u))"
    by (simp add: unauthorized_def)
  show ?thesis
    using auth
    by (auto simp: schedule_def schedule_try_valid [OF assms(2-4)] Let_def send_message_def
        split: sum.splits if_splits prod.splits)
qed

text \<open>The timers that \<open>main\<close> arms are those of the rows that are due later than the
  clock reading of the query, and no others.\<close>

lemma main_rearms_only_later_rows:
  assumes "\<not> falsy (BOT_TOKEN ev)" and "\<not> falsy (ADMIN_USERID ev)"
  shows "map name (job_queue (main ev now_query now w))
           = map job_id (filter (\<lambda>r. now_query < run_at r) (db w))"
  using assms
  by (simp add: main_def init_db_def Let_def restore_spec get_pending_schedules_def
      rearmed_def comp_def)

text \<open>An accepted request, run: the admin asks for a reminder in five seconds.\<close>

lemma schedule_example:
  "schedule admin_env online 1000000000 ''job-3'' submit_request empty_world =
     (None,
      \<lparr>db = [submitted_row ''job-3'' submit_request ''123'' 1005000000],
       job_queue = [submitted_job ''job-3'' submit_request 5 ''123''],
       api_calls = 1,
       trace = [Armed (submitted_job ''job-3'' submit_request 5 ''123''),
                Inserted (submitted_row ''job-3'' submit_request ''123'' 1005000000),
                Logged INFO, Sent (Some 42) (Understood 5)]\<rparr>)"
  by code_simp

text \<open>
  Claim C3, as stated: a submission persists the row before it arms the timer, so that at
  no point a timer is armed for a job that is not in the table. \<open>schedule\<close> does the
  opposite: on the accepted request above the first effect is \<open>Armed\<close>, and the row is
  inserted after it.
\<close>

theorem schedule_arms_before_insert_counterexample:
  "fst (schedule admin_env online 1000000000 ''job-3'' submit_request empty_world) = None
   \<and> trace (snd (schedule admin_env online 1000000000 ''job-3'' submit_request empty_world)) =
       [Armed (submitted_job ''job-3'' submit_request 5 ''123''),
        Inserted (submitted_row ''job-3'' submit_request ''123'' 1005000000),
        Logged INFO, Sent (Some 42) (Understood 5)]
   \<and> \<not> persisted_before_armed []
         (trace (snd (schedule admin_env online 1000000000 ''job-3'' submit_request empty_world)))"
  by (simp add: schedule_example)

text \<open>
  Claim C3, amended. For every successful submission (the handler returns normally and
  the table has changed), \<open>schedule\<close> arms the timer of the job in the job queue first and
  inserts the row of the same job id into the table immediately afterwards, then logs and
  confirms: its effects are exactly \<open>Armed\<close>, \<open>Inserted\<close>, the log line and the
  confirmation, in this order, and at the end the timer and the row are both present.
\<close>

theorem schedule_arms_then_inserts:
  assumes "schedule ev net now uuid u w = (None, w')" and "db w' \<noteq> db w"
  shows "\<exists>a0 t d. args u = [a0, ''/freecredential'', t] \<and> py_int a0 = Inr d \<and> isdigit t
           \<and> trace w' = trace w @
                [Armed (submitted_job uuid u d t),
                 Inserted (submitted_row uuid u t (now + d * 1000000)),
                 Logged INFO,
                 Sent (Some (message_chat_id u)) (Understood d)]
           \<and> job_queue w' = job_queue w @ [submitted_job uuid u d t]
           \<and> db w' = db w @ [submitted_row uuid u t (now + d * 1000000)]"
proof (cases "unauthorized ev u \<or> malformed u")
  case True
  then have "db (snd (schedule ev net now uuid u w)) = db w"
    by (rule schedule_rejected_state)
  with assms show ?thesis by simp
next
  case False
  then have auth: "ADMIN_USERID ev = Some (py_str (effective_user_id u))"
    by (simp add: unauthorized_def)
  from False obtain a0 t d where
    v: "args u = [a0, ''/freecredential'', t]" "py_int a0 = Inr d" "isdigit t"
    using not_malformed by blast
  have "trace w' = trace w @
                [Armed (submitted_job uuid u d t),
                 Inserted (submitted_row uuid u t (now + d * 1000000)),
                 Logged INFO,
                 Sent (Some (message_chat_id u)) (Understood d)]
           \<and> job_queue w' = job_queue w @ [submitted_job uuid u d t]
           \<and> db w' = db w @ [submitted_row uuid u t (now + d * 1000000)]"
    using assms auth
    by (auto simp: schedule_def schedule_try_valid [OF v] Let_def send_message_def
        timedelta_seconds_def datetime_add_def split: sum.splits if_splits prod.splits)
  with v show ?thesis by blast
qed

theorem schedule_arms_then_inserts_witness:
  "fst (schedule admin_env online 1000000000 ''job-3'' submit_request empty_world) = None
   \<and> db (snd (schedule admin_env online 1000000000 ''job-3'' submit_request empty_world))
       \<noteq> db empty_world
   \<and> (\<exists>a0 t d. args submit_request = [a0, ''/freecredential'', t] \<and> py_int a0 = Inr d
         \<and> job_queue (snd (schedule admin_env online 1000000000 ''job-3'' submit_request
              empty_world)) = job_queue empty_world @ [submitted_job ''job-3'' submit_request d t])"
proof -
  let ?w' = "snd (schedule admin_env online 1000000000 ''job-3'' submit_request empty_world)"
  have r: "schedule admin_env online 1000000000 ''job-3'' submit_request empty_world = (None, ?w')"
    by (simp add: schedule_example)
  have e: "db ?w' = [submitted_row ''job-3'' submit_request ''123'' 1005000000]"
    by (simp add: schedule_example)
  have c: "db ?w' \<noteq> db empty_world"
    unfolding e by (simp add: empty_world_def)
  from schedule_arms_then_inserts [OF r c] r c show ?thesis
    by (metis fst_conv)
qed



section \<open>Requests that are refused\<close>




text \<open>
  Claim C4. A submission with a negative delay is to be refused. bot.py has no such check:
  for the admin's request \<open>/schedule -5 /freecredential 123\<close> the handler \<open>schedule\<close> arms
  a timer with \<open>when = -5\<close> seconds and inserts a row whose \<open>run_at\<close> lies five seconds
  before the clock reading. (bot1.py does refuse a delay below one second, see
  \<open>set_reminder_rejects_short_delay\<close>.)
\<close>

theorem schedule_accepts_negative_delay:
  "py_int ''-5'' = Inr (- 5)
   \<and> schedule admin_env online 1000000000 ''job-3'' negative_request empty_world =
       (None,
        \<lparr>db = [submitted_row ''job-3'' negative_request ''123'' 995000000],
         job_queue = [submitted_job ''job-3'' negative_request (- 5) ''123''],
         api_calls = 1,
         trace = [Armed (submitted_job ''job-3'' negative_request (- 5) ''123''),
                  Inserted (submitted_row ''job-3'' negative_request ''123'' 995000000),
                  Logged INFO, Sent (Some 42) (Understood (- 5))]\<rparr>)
   \<and> when_us (submitted_job ''job-3'' negative_request (- 5) ''123'') = - 5000000"
  by code_simp

text \<open>The sibling handler of bot1.py: a delay below one second is answered with the
  too-small text and no reminder is scheduled.\<close>

lemma set_reminder_rejects_short_delay:
  assumes "args u = a0 # a1 # rest" and "py_int a0 = Inr d" and "d < 1"
  shows "reminders (snd (set_reminder net u w)) = reminders w"
    and "net (api_calls1 w) \<Longrightarrow>
           set_reminder net u w =
             (None, w\<lparr>api_calls1 := Suc (api_calls1 w),
                      sent1 := sent1 w @ [(message_chat_id u, TooSmall)]\<rparr>)"
  using assms
  by (simp_all add: set_reminder_def set_reminder_try_def reply_text1_def Let_def)

lemma set_reminder_example:
  "set_reminder online (request 42 [''-5'', ''call'', ''home'']) empty_world1 =
     (None, \<lparr>reminders = [], api_calls1 = 1, sent1 = [(42, TooSmall)]\<rparr>)"
  by code_simp

section \<open>Cancellation\<close>




section \<open>Recovery of overdue jobs\<close>

text \<open>
  Claim C1. A restart with N unfired jobs in the table is to re-arm exactly N timers,
  those whose \<open>run_at\<close> has passed included. \<open>main\<close> takes its rows from
  \<open>get_pending_schedules\<close>, which leaves out every row whose \<open>run_at\<close> is not later than
  the clock: with the two rows \<open>job-1\<close> (due at 5 s) and \<open>job-2\<close> (due at 10000 s) in
  the table, a restart at 3000 s arms the timer of \<open>job-2\<close> only.
\<close>

theorem recovery_drops_overdue_job:
  "map job_id (db stored_world) = [''job-1'', ''job-2'']
   \<and> map run_at (db stored_world) = [5000000, 10000000000]
   \<and> map name (job_queue (main admin_env 3000000000 3000000001 stored_world)) = [''job-2'']"
  by code_simp

end
